theory Spec2Isabelle
  imports Main "HOL-Library.Word"
begin

unbundle bit_operations_syntax

section \<open>The AVX-512 single-precision batch of xsimd\<close>

text \<open>
  Shallow embedding of \<^verbatim>\<open>include/xsimd/types/xsimd_avx512_float.hpp\<close>.
  A \<^verbatim>\<open>float\<close> is its IEEE 754 binary32 bit pattern, a \<^verbatim>\<open>__m512\<close> register is the
  list of its sixteen lanes (lane 0 first), a \<^verbatim>\<open>__mmask16\<close> is a 16-bit word.
  The functions of the header are one-line calls of Intel intrinsics; the intrinsics are
  not code of the library, they are embedded here from the operation sections of the
  Intel instruction set reference (default MXCSR apart from the rounding control, which
  is an explicit parameter: denormals are neither flushed nor read as zero, exceptions
  are masked).
\<close>

subsection \<open>Data\<close>

type_synonym f32 = "32 word"
type_synonym m512 = "f32 list"
type_synonym m256 = "f32 list"
type_synonym mmask16 = "16 word"

text \<open>\<^verbatim>\<open>class batch<float, 16>\<close> has the single member \<^verbatim>\<open>__m512 m_value\<close> and converts
  implicitly from and to it.\<close>

type_synonym batch_float16 = m512

text \<open>Modelled from the spec: \<^verbatim>\<open>batch_bool<float, 16>\<close> derives from
  \<^verbatim>\<open>batch_bool_avx512<__mmask16, _>\<close>, which is declared in a header that is not part of
  the sources at hand. The spec says that a boolean batch is backed by a compact bitmask
  in which a mask bit means true or false for its lane: lane \<open>i\<close> is bit \<open>i\<close>.\<close>

type_synonym batch_bool_float16 = mmask16

definition batch_bool_index :: "batch_bool_float16 \<Rightarrow> nat \<Rightarrow> bool" where
  "batch_bool_index m i = bit m i"

text \<open>The MXCSR rounding control field.\<close>

datatype rounding_control = Round_Nearest | Round_Down | Round_Up | Round_Zero

text \<open>Memory holds four-byte scalars (\<^verbatim>\<open>float\<close> or \<^verbatim>\<open>int32_t\<close>); a pointer is a byte
  address, and the scalar \<open>p[j]\<close> lives at address \<open>p + 4 * j\<close>.\<close>

type_synonym address = nat
type_synonym memory = "address \<Rightarrow> 32 word"

datatype fault = General_Protection

definition read16 :: "memory \<Rightarrow> address \<Rightarrow> 32 word list" where
  "read16 mem p = map (\<lambda>j. mem (p + 4 * j)) [0..<16]"

definition write16 :: "memory \<Rightarrow> address \<Rightarrow> 32 word list \<Rightarrow> memory" where
  "write16 mem p v =
     (\<lambda>a. if p \<le> a \<and> a < p + 64 \<and> (a - p) mod 4 = 0 then v ! ((a - p) div 4) else mem a)"

subsection \<open>IEEE 754 binary32\<close>

definition sign_bit :: "f32 \<Rightarrow> bool" where
  "sign_bit w = bit w 31"

definition exponent :: "f32 \<Rightarrow> nat" where
  "exponent w = unat (drop_bit 23 w AND 0xFF)"

definition fraction :: "f32 \<Rightarrow> nat" where
  "fraction w = unat (w AND 0x7FFFFF)"

definition is_nan :: "f32 \<Rightarrow> bool" where
  "is_nan w = (exponent w = 255 \<and> fraction w \<noteq> 0)"

definition is_inf :: "f32 \<Rightarrow> bool" where
  "is_inf w = (exponent w = 255 \<and> fraction w = 0)"

text \<open>The magnitude of a float that is not a NaN, in units of \<open>2 ^ -149\<close> (the smallest
  denormal), so that every finite float is an integer number of units. An infinity gets
  \<open>2 ^ 277\<close> units, above every finite float.\<close>

definition magnitude :: "f32 \<Rightarrow> nat" where
  "magnitude w =
     (if exponent w = 0 then fraction w else (2 ^ 23 + fraction w) * 2 ^ (exponent w - 1))"

definition fp_val :: "f32 \<Rightarrow> int" where
  "fp_val w = (if sign_bit w then - int (magnitude w) else int (magnitude w))"

datatype fp_relation = Greater | Less | Equal | Unordered

definition fp_compare :: "f32 \<Rightarrow> f32 \<Rightarrow> fp_relation" where
  "fp_compare a b =
     (if is_nan a \<or> is_nan b then Unordered
      else if fp_val a < fp_val b then Less
      else if fp_val a = fp_val b then Equal
      else Greater)"

subsection \<open>Rounding, addition and conversion\<close>

fun bit_length :: "nat \<Rightarrow> nat" where
  "bit_length n = (if n = 0 then 0 else Suc (bit_length (n div 2)))"

declare bit_length.simps [simp del]

definition with_sign :: "bool \<Rightarrow> 32 word \<Rightarrow> f32" where
  "with_sign s m = (if s then 0x80000000 + m else m)"

text \<open>A NaN operand comes out of an arithmetic instruction quieted: fraction bit 22 set,
  sign and payload kept.\<close>

definition quiet :: "f32 \<Rightarrow> f32" where
  "quiet w = w OR 0x00400000"

text \<open>The result of an overflow, by rounding control and sign.\<close>

definition overflow :: "rounding_control \<Rightarrow> bool \<Rightarrow> f32" where
  "overflow rc s =
     (case rc of
        Round_Nearest \<Rightarrow> with_sign s 0x7F800000
      | Round_Zero \<Rightarrow> with_sign s 0x7F7FFFFF
      | Round_Down \<Rightarrow> (if s then 0xFF800000 else 0x7F7FFFFF)
      | Round_Up \<Rightarrow> (if s then 0xFF7FFFFF else 0x7F800000))"

text \<open>Rounding an exact magnitude \<open>n\<close> (in units of \<open>2 ^ -149\<close>) with sign \<open>s\<close> to a
  float: the magnitude is cut to 24 significant bits, \<open>sh\<close> bits are dropped, and the
  encoding \<open>(sh + 1) * 2 ^ 23 + (q - 2 ^ 23)\<close> of exponent and fraction absorbs the carry
  of a round-up into the exponent. Below \<open>2 ^ 24\<close> nothing is dropped and the encoding is
  \<open>n\<close> itself (denormals and the first binade).\<close>

definition round_to_f32 :: "rounding_control \<Rightarrow> bool \<Rightarrow> nat \<Rightarrow> f32" where
  "round_to_f32 rc s n =
     (let sh = bit_length n - 24;
          q = n div 2 ^ sh;
          r = n mod 2 ^ sh;
          up = (case rc of
                  Round_Nearest \<Rightarrow> 2 ^ sh < 2 * r \<or> (2 * r = 2 ^ sh \<and> odd q)
                | Round_Zero \<Rightarrow> False
                | Round_Down \<Rightarrow> s \<and> r \<noteq> 0
                | Round_Up \<Rightarrow> \<not> s \<and> r \<noteq> 0);
          enc = sh * 2 ^ 23 + q + (if up then 1 else 0)
      in if 0x7F800000 \<le> enc then overflow rc s else with_sign s (of_nat enc))"

text \<open>The sum of two operands that are not NaN.\<close>

definition add_non_nan :: "rounding_control \<Rightarrow> f32 \<Rightarrow> f32 \<Rightarrow> f32" where
  "add_non_nan rc a b =
     (if is_inf a then (if is_inf b \<and> sign_bit a \<noteq> sign_bit b then 0xFFC00000 else a)
      else if is_inf b then b
      else
        let s = fp_val a + fp_val b
        in if s = 0
           then (if sign_bit a = sign_bit b then with_sign (sign_bit a) 0
                 else with_sign (rc = Round_Down) 0)
           else round_to_f32 rc (s < 0) (nat \<bar>s\<bar>))"

definition fp_add :: "rounding_control \<Rightarrow> f32 \<Rightarrow> f32 \<Rightarrow> f32" where
  "fp_add rc a b =
     (if is_nan a then quiet a else if is_nan b then quiet b else add_non_nan rc a b)"

definition fp_sub :: "rounding_control \<Rightarrow> f32 \<Rightarrow> f32 \<Rightarrow> f32" where
  "fp_sub rc a b =
     (if is_nan a then quiet a else if is_nan b then quiet b
      else add_non_nan rc a (b XOR 0x80000000))"

text \<open>Rounding a value \<open>v\<close> (in units of \<open>2 ^ -149\<close>) to an integer.\<close>

definition round_to_int :: "rounding_control \<Rightarrow> int \<Rightarrow> int" where
  "round_to_int rc v =
     (let q = v div 2 ^ 149;
          r = v mod 2 ^ 149
      in case rc of
           Round_Nearest \<Rightarrow> (if 2 ^ 149 < 2 * r \<or> (2 * r = 2 ^ 149 \<and> odd q) then q + 1 else q)
         | Round_Down \<Rightarrow> q
         | Round_Up \<Rightarrow> (if r \<noteq> 0 then q + 1 else q)
         | Round_Zero \<Rightarrow> (if v < 0 \<and> r \<noteq> 0 then q + 1 else q))"

text \<open>One lane of \<^verbatim>\<open>VCVTPS2DQ\<close>: the float is rounded to an integer by the rounding
  control; a NaN, an infinity or a value outside the range of \<^verbatim>\<open>int32_t\<close> gives the
  integer indefinite \<open>0x80000000\<close>.\<close>

definition cvt_f32_i32 :: "rounding_control \<Rightarrow> f32 \<Rightarrow> 32 word" where
  "cvt_f32_i32 rc w =
     (if is_nan w \<or> is_inf w then 0x80000000
      else
        let i = round_to_int rc (fp_val w)
        in if - (2 ^ 31) \<le> i \<and> i < 2 ^ 31 then word_of_int i else 0x80000000)"

text \<open>Truncation toward zero, as the conversion \<^verbatim>\<open>int32_t(f)\<close> of C++ does it: the
  fractional part is discarded; the conversion is undefined when the truncated value
  does not fit the destination type.\<close>

definition truncate_toward_zero :: "f32 \<Rightarrow> int option" where
  "truncate_toward_zero w =
     (if is_nan w \<or> is_inf w then None
      else
        let i = sgn (fp_val w) * (\<bar>fp_val w\<bar> div 2 ^ 149)
        in if - (2 ^ 31) \<le> i \<and> i < 2 ^ 31 then Some i else None)"

text \<open>Scalar negation of C++ on \<^verbatim>\<open>float\<close>: the sign bit is flipped.\<close>

definition scalar_neg :: "f32 \<Rightarrow> f32" where
  "scalar_neg w = w XOR 0x80000000"

subsection \<open>Comparison intrinsics\<close>

text \<open>The comparison predicates of \<^verbatim>\<open>VCMPPS\<close> (immediate bits 0 to 3; bit 4 only selects
  whether a quiet NaN signals): for each, the result when the first operand is greater,
  less, equal, or the operands are unordered.\<close>

definition cmp_table :: "(bool \<times> bool \<times> bool \<times> bool) list" where
  "cmp_table =
    [(False, False, True,  False),   \<comment> \<open>0  EQ_OQ\<close>
     (False, True,  False, False),   \<comment> \<open>1  LT_OS\<close>
     (False, True,  True,  False),   \<comment> \<open>2  LE_OS\<close>
     (False, False, False, True),    \<comment> \<open>3  UNORD_Q\<close>
     (True,  True,  False, True),    \<comment> \<open>4  NEQ_UQ\<close>
     (True,  False, True,  True),    \<comment> \<open>5  NLT_US\<close>
     (True,  False, False, True),    \<comment> \<open>6  NLE_US\<close>
     (True,  True,  True,  False),   \<comment> \<open>7  ORD_Q\<close>
     (False, False, True,  True),    \<comment> \<open>8  EQ_UQ\<close>
     (False, True,  False, True),    \<comment> \<open>9  NGE_US\<close>
     (False, True,  True,  True),    \<comment> \<open>10 NGT_US\<close>
     (False, False, False, False),   \<comment> \<open>11 FALSE_OQ\<close>
     (True,  True,  False, False),   \<comment> \<open>12 NEQ_OQ\<close>
     (True,  False, True,  False),   \<comment> \<open>13 GE_OS\<close>
     (True,  False, False, False),   \<comment> \<open>14 GT_OS\<close>
     (True,  True,  True,  True)]"   \<comment> \<open>15 TRUE_UQ\<close>

definition CMP_EQ_OQ :: nat where "CMP_EQ_OQ = 0x00"
definition CMP_UNORD_Q :: nat where "CMP_UNORD_Q = 0x03"
definition CMP_NEQ_UQ :: nat where "CMP_NEQ_UQ = 0x04"
definition CMP_NEQ_OQ :: nat where "CMP_NEQ_OQ = 0x0C"
definition CMP_LT_OQ :: nat where "CMP_LT_OQ = 0x11"
definition CMP_LE_OQ :: nat where "CMP_LE_OQ = 0x12"

definition cmp_holds :: "nat \<Rightarrow> fp_relation \<Rightarrow> bool" where
  "cmp_holds imm r =
     (case cmp_table ! (imm mod 16) of
        (g, l, e, u) \<Rightarrow>
          (case r of Greater \<Rightarrow> g | Less \<Rightarrow> l | Equal \<Rightarrow> e | Unordered \<Rightarrow> u))"

definition mask_of_bools :: "bool list \<Rightarrow> mmask16" where
  "mask_of_bools bs = horner_sum of_bool 2 bs"

definition mm512_cmp_ps_mask :: "m512 \<Rightarrow> m512 \<Rightarrow> nat \<Rightarrow> mmask16" where
  "mm512_cmp_ps_mask a b imm =
     mask_of_bools (map (\<lambda>j. cmp_holds imm (fp_compare (a ! j) (b ! j))) [0..<16])"

subsection \<open>Load, store and bitwise intrinsics\<close>

definition mm512_loadu_ps :: "memory \<Rightarrow> address \<Rightarrow> fault + m512" where
  "mm512_loadu_ps mem p = Inr (read16 mem p)"

definition mm512_load_ps :: "memory \<Rightarrow> address \<Rightarrow> fault + m512" where
  "mm512_load_ps mem p = (if p mod 64 = 0 then Inr (read16 mem p) else Inl General_Protection)"

definition mm512_storeu_ps :: "memory \<Rightarrow> address \<Rightarrow> m512 \<Rightarrow> fault + memory" where
  "mm512_storeu_ps mem p v = Inr (write16 mem p v)"

definition mm512_store_ps :: "memory \<Rightarrow> address \<Rightarrow> m512 \<Rightarrow> fault + memory" where
  "mm512_store_ps mem p v =
     (if p mod 64 = 0 then Inr (write16 mem p v) else Inl General_Protection)"

definition mm512_storeu_si512 :: "memory \<Rightarrow> address \<Rightarrow> 32 word list \<Rightarrow> fault + memory" where
  "mm512_storeu_si512 mem p v = Inr (write16 mem p v)"

definition mm512_store_si512 :: "memory \<Rightarrow> address \<Rightarrow> 32 word list \<Rightarrow> fault + memory" where
  "mm512_store_si512 mem p v =
     (if p mod 64 = 0 then Inr (write16 mem p v) else Inl General_Protection)"

definition mm512_andnot_ps :: "m512 \<Rightarrow> m512 \<Rightarrow> m512" where
  "mm512_andnot_ps a b = map (\<lambda>j. (NOT (a ! j)) AND (b ! j)) [0..<16]"

definition mm512_mask_blend_ps :: "mmask16 \<Rightarrow> m512 \<Rightarrow> m512 \<Rightarrow> m512" where
  "mm512_mask_blend_ps k a b = map (\<lambda>j. if bit k j then b ! j else a ! j) [0..<16]"

subsection \<open>Arithmetic, conversion and shuffle intrinsics\<close>

definition mm512_setzero_ps :: m512 where
  "mm512_setzero_ps = replicate 16 0"

definition mm512_add_ps :: "rounding_control \<Rightarrow> m512 \<Rightarrow> m512 \<Rightarrow> m512" where
  "mm512_add_ps rc a b = map (\<lambda>j. fp_add rc (a ! j) (b ! j)) [0..<16]"

definition mm512_sub_ps :: "rounding_control \<Rightarrow> m512 \<Rightarrow> m512 \<Rightarrow> m512" where
  "mm512_sub_ps rc a b = map (\<lambda>j. fp_sub rc (a ! j) (b ! j)) [0..<16]"

definition mm512_cvtps_epi32 :: "rounding_control \<Rightarrow> m512 \<Rightarrow> 32 word list" where
  "mm512_cvtps_epi32 rc a = map (\<lambda>j. cvt_f32_i32 rc (a ! j)) [0..<16]"

text \<open>\<^verbatim>\<open>_MM_SHUFFLE(z, y, x, w)\<close> is \<^verbatim>\<open>(z << 6) | (y << 4) | (x << 2) | w\<close>.\<close>

definition MM_SHUFFLE :: "nat \<Rightarrow> nat \<Rightarrow> nat \<Rightarrow> nat \<Rightarrow> nat" where
  "MM_SHUFFLE z y x w = z * 64 + y * 16 + x * 4 + w"

text \<open>\<^verbatim>\<open>VSHUFF32X4\<close>: the result is four 128-bit blocks; blocks 0 and 1 are picked from
  \<open>a\<close>, blocks 2 and 3 from \<open>b\<close>, block \<open>c\<close> by bits \<open>2c+1:2c\<close> of the immediate.\<close>

definition mm512_shuffle_f32x4 :: "m512 \<Rightarrow> m512 \<Rightarrow> nat \<Rightarrow> m512" where
  "mm512_shuffle_f32x4 a b imm =
     map (\<lambda>j. let c = j div 4;
                  sel = (imm div 4 ^ c) mod 4
              in (if c < 2 then a else b) ! (4 * sel + j mod 4)) [0..<16]"

text \<open>\<^verbatim>\<open>VSHUFPS\<close>: within each 128-bit block, elements 0 and 1 are picked from the same
  block of \<open>a\<close>, elements 2 and 3 from the same block of \<open>b\<close>, element \<open>e\<close> by bits
  \<open>2e+1:2e\<close> of the immediate.\<close>

definition mm512_shuffle_ps :: "m512 \<Rightarrow> m512 \<Rightarrow> nat \<Rightarrow> m512" where
  "mm512_shuffle_ps a b imm =
     map (\<lambda>j. let c = j div 4;
                  e = j mod 4;
                  sel = (imm div 4 ^ e) mod 4
              in (if e < 2 then a else b) ! (4 * c + sel)) [0..<16]"

definition mm512_extractf32x8_ps :: "m512 \<Rightarrow> nat \<Rightarrow> m256" where
  "mm512_extractf32x8_ps a imm = map (\<lambda>j. a ! (8 * (imm mod 2) + j)) [0..<8]"

text \<open>\<^verbatim>\<open>VHADDPS\<close> on 256-bit registers: sums of adjacent pairs, per 128-bit block first
  those of \<open>a\<close>, then those of \<open>b\<close>.\<close>

definition mm256_hadd_ps :: "rounding_control \<Rightarrow> m256 \<Rightarrow> m256 \<Rightarrow> m256" where
  "mm256_hadd_ps rc a b =
     [fp_add rc (a ! 1) (a ! 0), fp_add rc (a ! 3) (a ! 2),
      fp_add rc (b ! 1) (b ! 0), fp_add rc (b ! 3) (b ! 2),
      fp_add rc (a ! 5) (a ! 4), fp_add rc (a ! 7) (a ! 6),
      fp_add rc (b ! 5) (b ! 4), fp_add rc (b ! 7) (b ! 6)]"

text \<open>\<^verbatim>\<open>_mm512_castps256_ps512\<close> leaves the upper eight lanes undefined; they are zero
  here. Its only use is followed by \<^verbatim>\<open>_mm512_insertf32x8(_, _, 1)\<close>, which overwrites
  them.\<close>

definition mm512_castps256_ps512 :: "m256 \<Rightarrow> m512" where
  "mm512_castps256_ps512 a = take 8 a @ replicate 8 0"

definition mm512_insertf32x8 :: "m512 \<Rightarrow> m256 \<Rightarrow> nat \<Rightarrow> m512" where
  "mm512_insertf32x8 a b imm =
     (if imm mod 2 = 0 then take 8 b @ drop 8 a else take 8 a @ take 8 b)"

subsection \<open>The batch: constructors, load and store\<close>

text \<open>\<^verbatim>\<open>batch(const float* src)\<close>\<close>

definition batch_src :: "memory \<Rightarrow> address \<Rightarrow> fault + batch_float16" where
  "batch_src mem src = mm512_loadu_ps mem src"

text \<open>\<^verbatim>\<open>batch(const float* src, aligned_mode)\<close>\<close>

definition batch_aligned_mode :: "memory \<Rightarrow> address \<Rightarrow> fault + batch_float16" where
  "batch_aligned_mode mem src = mm512_load_ps mem src"

text \<open>\<^verbatim>\<open>batch(const float* src, unaligned_mode)\<close>\<close>

definition batch_unaligned_mode :: "memory \<Rightarrow> address \<Rightarrow> fault + batch_float16" where
  "batch_unaligned_mode mem src = mm512_load_ps mem src"

text \<open>\<^verbatim>\<open>load_aligned(const float*)\<close>, \<^verbatim>\<open>load_unaligned(const float*)\<close>: the loaded
  register replaces \<^verbatim>\<open>m_value\<close>.\<close>

definition load_aligned_float :: "memory \<Rightarrow> address \<Rightarrow> fault + batch_float16" where
  "load_aligned_float mem src = mm512_load_ps mem src"

definition load_unaligned_float :: "memory \<Rightarrow> address \<Rightarrow> fault + batch_float16" where
  "load_unaligned_float mem src = mm512_loadu_ps mem src"

text \<open>\<^verbatim>\<open>store_aligned(float*)\<close>, \<^verbatim>\<open>store_unaligned(float*)\<close>\<close>

definition store_aligned_float :: "batch_float16 \<Rightarrow> memory \<Rightarrow> address \<Rightarrow> fault + memory" where
  "store_aligned_float m_value mem dst = mm512_store_ps mem dst m_value"

definition store_unaligned_float :: "batch_float16 \<Rightarrow> memory \<Rightarrow> address \<Rightarrow> fault + memory" where
  "store_unaligned_float m_value mem dst = mm512_storeu_ps mem dst m_value"

text \<open>\<^verbatim>\<open>operator[](std::size_t index)\<close>: the batch is stored to the local array
  \<^verbatim>\<open>alignas(64) float x[16]\<close> and \<^verbatim>\<open>x[index & 15]\<close> is returned. The local array is the
  64-byte aligned block at address 0 of the function's own frame.\<close>

definition batch_index :: "batch_float16 \<Rightarrow> 64 word \<Rightarrow> fault + f32" where
  "batch_index m_value index =
     (case store_aligned_float m_value (\<lambda>a. 0) 0 of
        Inl e \<Rightarrow> Inl e
      | Inr frame \<Rightarrow> Inr (frame (0 + 4 * unat (index AND 15))))"

text \<open>\<^verbatim>\<open>store_aligned(int32_t*)\<close>, \<^verbatim>\<open>store_unaligned(int32_t*)\<close>\<close>

definition store_aligned_int32 ::
  "rounding_control \<Rightarrow> batch_float16 \<Rightarrow> memory \<Rightarrow> address \<Rightarrow> fault + memory" where
  "store_aligned_int32 rc m_value mem dst =
     mm512_store_si512 mem dst (mm512_cvtps_epi32 rc m_value)"

definition store_unaligned_int32 ::
  "rounding_control \<Rightarrow> batch_float16 \<Rightarrow> memory \<Rightarrow> address \<Rightarrow> fault + memory" where
  "store_unaligned_int32 rc m_value mem dst =
     mm512_storeu_si512 mem dst (mm512_cvtps_epi32 rc m_value)"

subsection \<open>Arithmetic operators and the partial horizontal sum\<close>

text \<open>Unary \<^verbatim>\<open>operator-\<close>\<close>

definition batch_neg :: "rounding_control \<Rightarrow> batch_float16 \<Rightarrow> batch_float16" where
  "batch_neg rc rhs = mm512_sub_ps rc mm512_setzero_ps rhs"

text \<open>Binary \<^verbatim>\<open>operator+\<close>; the built-in \<^verbatim>\<open>+\<close> of the compiler on \<^verbatim>\<open>__m512\<close> is the
  same lane-wise addition.\<close>

definition batch_add :: "rounding_control \<Rightarrow> batch_float16 \<Rightarrow> batch_float16 \<Rightarrow> batch_float16" where
  "batch_add rc lhs rhs = mm512_add_ps rc lhs rhs"

text \<open>The macro \<^verbatim>\<open>XSIMD_AVX512_HADDP_STEP1(I, a, b)\<close>, returning \<^verbatim>\<open>resI\<close>.\<close>

definition HADDP_STEP1 :: "rounding_control \<Rightarrow> batch_float16 \<Rightarrow> batch_float16 \<Rightarrow> batch_float16" where
  "HADDP_STEP1 rc a b =
     (let tmp1 = mm512_shuffle_f32x4 a b (MM_SHUFFLE 1 0 1 0);
          tmp2 = mm512_shuffle_f32x4 a b (MM_SHUFFLE 3 2 3 2)
      in batch_add rc tmp1 tmp2)"

text \<open>The macro \<^verbatim>\<open>XSIMD_AVX512_HADDP_STEP2(I, a, b, c, d)\<close>, returning \<^verbatim>\<open>halfxI\<close>.\<close>

definition HADDP_STEP2 ::
  "rounding_control \<Rightarrow> batch_float16 \<Rightarrow> batch_float16 \<Rightarrow> batch_float16 \<Rightarrow> batch_float16 \<Rightarrow> m256" where
  "HADDP_STEP2 rc a b c d =
     (let tmp1 = mm512_shuffle_f32x4 a b (MM_SHUFFLE 2 0 2 0);
          tmp2 = mm512_shuffle_f32x4 a b (MM_SHUFFLE 3 1 3 1);
          resx1 = batch_add rc tmp1 tmp2;
          tmp3 = mm512_shuffle_f32x4 c d (MM_SHUFFLE 2 0 2 0);
          tmp4 = mm512_shuffle_f32x4 c d (MM_SHUFFLE 3 1 3 1);
          resx2 = batch_add rc tmp3 tmp4;
          tmp5 = mm512_shuffle_ps resx1 resx2 0b00000000;
          tmp6 = mm512_shuffle_ps resx1 resx2 0b11111111;
          resx3 = batch_add rc tmp5 tmp6
      in mm256_hadd_ps rc (mm512_extractf32x8_ps resx3 0) (mm512_extractf32x8_ps resx3 1))"

definition haddp :: "rounding_control \<Rightarrow> batch_float16 list \<Rightarrow> batch_float16" where
  "haddp rc row =
     (let res1 = HADDP_STEP1 rc (row ! 0) (row ! 4);
          res2 = HADDP_STEP1 rc (row ! 2) (row ! 6);
          res3 = HADDP_STEP1 rc (row ! 1) (row ! 5);
          res4 = HADDP_STEP1 rc (row ! 3) (row ! 7);
          res5 = HADDP_STEP1 rc (row ! 8) (row ! 12);
          res6 = HADDP_STEP1 rc (row ! 10) (row ! 14);
          res7 = HADDP_STEP1 rc (row ! 9) (row ! 13);
          res8 = HADDP_STEP1 rc (row ! 11) (row ! 15);
          halfx0 = HADDP_STEP2 rc res1 res2 res3 res4;
          halfx1 = HADDP_STEP2 rc res5 res6 res7 res8;
          concat = mm512_castps256_ps512 halfx0;
          concat = mm512_insertf32x8 concat halfx1 1
      in concat)"

text \<open>The sum of the sixteen lanes of one batch, added one after the other from lane 0
  as a scalar loop does.\<close>

definition lane_sum :: "rounding_control \<Rightarrow> batch_float16 \<Rightarrow> f32" where
  "lane_sum rc v = foldl (fp_add rc) (hd v) (tl v)"

subsection \<open>Comparison, bitwise and selection operators\<close>

definition batch_eq :: "batch_float16 \<Rightarrow> batch_float16 \<Rightarrow> batch_bool_float16" where
  "batch_eq lhs rhs = mm512_cmp_ps_mask lhs rhs CMP_EQ_OQ"

definition batch_neq :: "batch_float16 \<Rightarrow> batch_float16 \<Rightarrow> batch_bool_float16" where
  "batch_neq lhs rhs = mm512_cmp_ps_mask lhs rhs CMP_NEQ_OQ"

definition batch_lt :: "batch_float16 \<Rightarrow> batch_float16 \<Rightarrow> batch_bool_float16" where
  "batch_lt lhs rhs = mm512_cmp_ps_mask lhs rhs CMP_LT_OQ"

definition batch_le :: "batch_float16 \<Rightarrow> batch_float16 \<Rightarrow> batch_bool_float16" where
  "batch_le lhs rhs = mm512_cmp_ps_mask lhs rhs CMP_LE_OQ"

definition bitwise_andnot :: "batch_float16 \<Rightarrow> batch_float16 \<Rightarrow> batch_float16" where
  "bitwise_andnot lhs rhs = mm512_andnot_ps lhs rhs"

definition select :: "batch_bool_float16 \<Rightarrow> batch_float16 \<Rightarrow> batch_float16 \<Rightarrow> batch_float16" where
  "select cond a b = mm512_mask_blend_ps cond b a"

definition isnan :: "batch_float16 \<Rightarrow> batch_bool_float16" where
  "isnan x = mm512_cmp_ps_mask x x CMP_UNORD_Q"

text \<open>The scalar operators of C++ on \<^verbatim>\<open>float\<close>: \<^verbatim>\<open>a != b\<close> is the negation of
  \<^verbatim>\<open>a == b\<close> (true on unordered operands), \<^verbatim>\<open>a < b\<close> is false on unordered operands.\<close>

definition scalar_neq :: "f32 \<Rightarrow> f32 \<Rightarrow> bool" where
  "scalar_neq a b = (fp_compare a b \<noteq> Equal)"

definition scalar_lt :: "f32 \<Rightarrow> f32 \<Rightarrow> bool" where
  "scalar_lt a b = (fp_compare a b = Less)"

section \<open>Properties\<close>

subsection \<open>Auxiliary facts\<close>

lemma bit_mask_of_bools:
  "bit (mask_of_bools (map f [0..<16])) i \<longleftrightarrow> i < 16 \<and> f i"
  by (auto simp add: mask_of_bools_def bit_horner_sum_bit_word_iff)

lemma unat_and_15: "unat ((k :: 64 word) AND 15) = unat k mod 16"
proof -
  have "k AND 15 = take_bit 4 k"
    by (simp add: take_bit_eq_mask mask_eq_exp_minus_1)
  then have "unat (k AND 15) = take_bit 4 (unat k)"
    by (simp only: unsigned_take_bit_eq)
  then show ?thesis
    by (simp add: take_bit_eq_mod)
qed

lemma cmp_holds_UNORD_Q: "cmp_holds CMP_UNORD_Q r \<longleftrightarrow> r = Unordered"
  by (cases r) (simp_all add: cmp_holds_def CMP_UNORD_Q_def cmp_table_def)

lemma cmp_holds_LT_OQ: "cmp_holds CMP_LT_OQ r \<longleftrightarrow> r = Less"
  by (cases r) (simp_all add: cmp_holds_def CMP_LT_OQ_def cmp_table_def)

lemma cmp_holds_NEQ_OQ: "cmp_holds CMP_NEQ_OQ r \<longleftrightarrow> r = Less \<or> r = Greater"
  by (cases r) (simp_all add: cmp_holds_def CMP_NEQ_OQ_def cmp_table_def)

lemma is_nan_qnan: "is_nan 0x7FC00000"
  by (simp add: is_nan_def exponent_def fraction_def)

subsection \<open>The fields of a float\<close>

lemma bit_length_unique:
  "2 ^ k \<le> n \<Longrightarrow> n < 2 ^ Suc k \<Longrightarrow> bit_length n = Suc k"
proof (induction k arbitrary: n)
  case 0
  then have "n = 1" by simp
  then show ?case by (simp add: bit_length.simps)
next
  case (Suc k)
  have "2 ^ k \<le> n div 2" using Suc.prems(1) by simp
  moreover have "n div 2 < 2 ^ Suc k" using Suc.prems(2) by simp
  ultimately have "bit_length (n div 2) = Suc k" by (rule Suc.IH)
  moreover have "n \<noteq> 0"
  proof
    assume "n = 0"
    with Suc.prems(1) show False by simp
  qed
  ultimately show ?case by (simp add: bit_length.simps [of n])
qed

lemma bit_length_le: "n < 2 ^ k \<Longrightarrow> bit_length n \<le> k"
proof (induction k arbitrary: n)
  case 0
  then show ?case by (simp add: bit_length.simps)
next
  case (Suc k)
  have "n div 2 < 2 ^ k" using Suc.prems by simp
  then have "bit_length (n div 2) \<le> k" by (rule Suc.IH)
  then show ?case by (simp add: bit_length.simps [of n])
qed

lemma exponent_unat: "exponent w = (unat w div 2 ^ 23) mod 256"
proof -
  have "drop_bit 23 w AND 0xFF = take_bit 8 (drop_bit 23 w)"
    by (simp add: take_bit_eq_mask mask_eq_exp_minus_1)
  then have "unat (drop_bit 23 w AND 0xFF) = take_bit 8 (unat (drop_bit 23 w))"
    by (simp only: unsigned_take_bit_eq)
  moreover have "unat (drop_bit 23 w) = drop_bit 23 (unat w)"
    by (rule unat_drop_bit_eq)
  ultimately have "exponent w = take_bit 8 (drop_bit 23 (unat w))"
    by (simp only: exponent_def)
  then show ?thesis
    by (simp only: take_bit_eq_mod drop_bit_eq_div) simp
qed

lemma fraction_unat: "fraction w = unat w mod 2 ^ 23"
proof -
  have "w AND 0x7FFFFF = take_bit 23 w"
    by (simp add: take_bit_eq_mask mask_eq_exp_minus_1)
  then have "unat (w AND 0x7FFFFF) = take_bit 23 (unat w)"
    by (simp only: unsigned_take_bit_eq)
  then show ?thesis
    by (simp add: fraction_def take_bit_eq_mod)
qed

lemma sign_bit_unat: "sign_bit w \<longleftrightarrow> 2 ^ 31 \<le> unat w"
proof -
  have less: "unat w < 2 * 2 ^ 31" using unsigned_less [of w] by simp
  have "bit (unat w) 31 = bit w 31"
    by (simp add: bit_unsigned_iff)
  then have odd: "sign_bit w \<longleftrightarrow> odd (unat w div 2 ^ 31)"
    by (simp only: sign_bit_def bit_iff_odd)
  show ?thesis
  proof (cases "2 ^ 31 \<le> unat w")
    case True
    have "unat w div 2 ^ 31 = 1"
      by (rule div_nat_eqI) (use True less in simp_all)
    with True odd show ?thesis by simp
  next
    case False
    then have "unat w div 2 ^ 31 = 0" by simp
    with False odd show ?thesis by simp
  qed
qed

lemma fraction_less: "fraction w < 2 ^ 23"
  by (simp add: fraction_unat)

lemma exponent_le: "exponent w \<le> 255"
proof -
  have "exponent w < 256" by (simp add: exponent_unat)
  then show ?thesis by simp
qed

lemma nat_fields:
  fixes x :: nat
  shows "(x div 2 ^ 31) * 2 ^ 31 + (x div 2 ^ 23 mod 256) * 2 ^ 23 + x mod 2 ^ 23 = x"
proof -
  define y where "y = x div 2 ^ 23"
  have "y div 256 = x div (2 ^ 23 * 256)"
    by (simp only: y_def div_mult2_eq)
  then have c: "y div 256 = x div 2 ^ 31"
    by simp
  have "(y div 256) * 2 ^ 31 + (y mod 256) * 2 ^ 23 = ((y div 256) * 256 + y mod 256) * 2 ^ 23"
    by (simp only: distrib_right mult.assoc) simp
  also have "\<dots> = y * 2 ^ 23"
    by simp
  finally have "(x div 2 ^ 31) * 2 ^ 31 + (y mod 256) * 2 ^ 23 = y * 2 ^ 23"
    by (simp only: c)
  moreover have "y * 2 ^ 23 + x mod 2 ^ 23 = x"
    by (simp add: y_def)
  ultimately show ?thesis
    by (simp only: y_def)
qed

lemma sign_div: "unat (w :: 32 word) div 2 ^ 31 = (if sign_bit w then 1 else 0)"
proof (cases "sign_bit w")
  case True
  have "unat w < 2 * 2 ^ 31" using unsigned_less [of w] by simp
  moreover have "2 ^ 31 \<le> unat w" using True by (simp only: sign_bit_unat)
  ultimately have "unat w div 2 ^ 31 = 1"
    by (intro div_nat_eqI) simp_all
  with True show ?thesis by simp
next
  case False
  then have "unat w < 2 ^ 31" by (simp add: sign_bit_unat)
  with False show ?thesis by simp
qed

lemma unat_fields:
  "(if sign_bit w then 2 ^ 31 else 0) + exponent w * 2 ^ 23 + fraction w = unat w"
proof -
  have "(unat w div 2 ^ 31) * 2 ^ 31 = (if sign_bit w then 2 ^ 31 else 0)"
    by (simp only: sign_div) simp
  then show ?thesis
    using nat_fields [of "unat w"] by (simp only: exponent_unat fraction_unat)
qed

lemma word_of_fields:
  "with_sign (sign_bit w) (of_nat (exponent w * 2 ^ 23 + fraction w)) = w"
proof -
  have "w = of_nat (unat w)" by simp
  also have "\<dots> = of_nat ((if sign_bit w then 2 ^ 31 else 0) + (exponent w * 2 ^ 23 + fraction w))"
    by (simp only: unat_fields add.assoc [symmetric])
  also have "\<dots> = with_sign (sign_bit w) (of_nat (exponent w * 2 ^ 23 + fraction w))"
    by (simp add: with_sign_def)
  finally show ?thesis by simp
qed

subsection \<open>Flipping the sign bit\<close>

lemma word_consts:
  "(0xFF :: 32 word) = mask 8" "(0x7FFFFF :: 32 word) = mask 23" "(0x80000000 :: 32 word) = 2 ^ 31"
  by (simp_all add: mask_eq_exp_minus_1)

lemma bit_sign_int: "bit (2147483648 :: int) n \<longleftrightarrow> n = 31"
proof -
  have "bit (2 ^ 31 :: int) n \<longleftrightarrow> n = 31"
    by (simp only: bit_exp_iff) simp
  then show ?thesis by simp
qed

lemma bit_flip_sign: "bit (w XOR (0x80000000 :: 32 word)) n = (bit w n \<noteq> (n = 31))"
  by (auto simp add: bit_xor_iff bit_sign_int dest: bit_imp_le_length)

lemma exponent_flip: "exponent (w XOR 0x80000000) = exponent w"
proof -
  have "drop_bit 23 (w XOR 0x80000000) AND mask 8 = drop_bit 23 w AND mask 8"
    by (rule bit_word_eqI)
      (auto simp only: bit_and_iff bit_drop_bit_eq o_apply bit_flip_sign bit_mask_iff)
  then show ?thesis by (simp only: exponent_def word_consts(1))
qed

lemma fraction_flip: "fraction (w XOR 0x80000000) = fraction w"
proof -
  have "(w XOR 0x80000000) AND mask 23 = w AND mask 23"
    by (rule bit_word_eqI) (auto simp only: bit_and_iff bit_flip_sign bit_mask_iff)
  then show ?thesis by (simp only: fraction_def word_consts(2))
qed

lemma is_nan_flip: "is_nan (w XOR 0x80000000) = is_nan w"
  by (simp only: is_nan_def exponent_flip fraction_flip)

lemma flip_flip: "(w XOR 0x80000000) XOR 0x80000000 = (w :: 32 word)"
  by (simp add: xor.assoc)

subsection \<open>Rounding an exactly representable magnitude\<close>

lemma magnitude_zero_iff: "magnitude w = 0 \<longleftrightarrow> exponent w = 0 \<and> fraction w = 0"
  by (simp add: magnitude_def)

lemma bit_length_magnitude:
  assumes "magnitude w \<noteq> 0"
  shows "bit_length (magnitude w) - 24 = exponent w - 1"
proof (cases "exponent w = 0")
  case True
  then have "magnitude w < 2 ^ 23"
    using fraction_less [of w] by (simp add: magnitude_def)
  then have "bit_length (magnitude w) \<le> 23" by (rule bit_length_le)
  with True show ?thesis by simp
next
  case False
  define k where "k = exponent w - 1"
  have m: "magnitude w = (2 ^ 23 + fraction w) * 2 ^ k"
    using False by (simp add: magnitude_def k_def)
  have "2 ^ 23 * 2 ^ k \<le> magnitude w"
    unfolding m by (rule mult_le_mono1) simp
  then have lo: "2 ^ (23 + k) \<le> magnitude w"
    by (simp only: power_add)
  have "2 ^ 23 + fraction w < 2 ^ 24"
    using fraction_less [of w] by simp
  then have "(2 ^ 23 + fraction w) * 2 ^ k < 2 ^ 24 * 2 ^ k"
    by (simp only: mult_less_cancel2) simp
  then have hi: "magnitude w < 2 ^ Suc (23 + k)"
    by (simp only: m power_add [symmetric]) simp
  have "bit_length (magnitude w) = Suc (23 + k)"
    using lo hi by (rule bit_length_unique)
  then show ?thesis by (simp add: k_def)
qed

lemma magnitude_div:
  "magnitude w div 2 ^ (exponent w - 1) = (if exponent w = 0 then 0 else 2 ^ 23) + fraction w"
  by (simp add: magnitude_def)

lemma magnitude_mod: "magnitude w mod 2 ^ (exponent w - 1) = 0"
  by (simp add: magnitude_def)

lemma round_to_f32_no_remainder:
  assumes "bit_length n - 24 = sh" and "n mod 2 ^ sh = 0"
    and "sh * 2 ^ 23 + n div 2 ^ sh < 0x7F800000"
  shows "round_to_f32 rc s n = with_sign s (of_nat (sh * 2 ^ 23 + n div 2 ^ sh))"
  using assms by (cases rc) (simp_all add: round_to_f32_def Let_def)

lemma round_to_f32_exact:
  assumes "exponent w < 255" and "magnitude w \<noteq> 0"
  shows "round_to_f32 rc (sign_bit w) (magnitude w) = w"
proof -
  define e where "e = exponent w"
  define f where "f = fraction w"
  define sh where "sh = e - 1"
  have enc: "sh * 2 ^ 23 + magnitude w div 2 ^ sh = e * 2 ^ 23 + f"
    unfolding sh_def e_def f_def magnitude_div by (cases "exponent w") simp_all
  have "e * 2 ^ 23 \<le> 254 * 2 ^ 23"
    using assms(1) by (simp add: e_def)
  then have "e * 2 ^ 23 + f < 0x7F800000"
    using fraction_less [of w] by (simp add: f_def)
  then have small: "sh * 2 ^ 23 + magnitude w div 2 ^ sh < 0x7F800000"
    by (simp only: enc)
  have "bit_length (magnitude w) - 24 = sh"
    using bit_length_magnitude [OF assms(2)] by (simp only: sh_def e_def)
  moreover have "magnitude w mod 2 ^ sh = 0"
    unfolding sh_def e_def by (rule magnitude_mod)
  ultimately have "round_to_f32 rc (sign_bit w) (magnitude w)
      = with_sign (sign_bit w) (of_nat (sh * 2 ^ 23 + magnitude w div 2 ^ sh))"
    using small by (rule round_to_f32_no_remainder)
  then show ?thesis
    by (simp only: enc e_def f_def word_of_fields)
qed

subsection \<open>Adding zero\<close>

lemma zero_facts:
  "\<not> is_nan 0" "\<not> is_inf 0" "\<not> sign_bit 0" "fp_val 0 = 0"
  by (simp_all add: is_nan_def is_inf_def sign_bit_def fp_val_def magnitude_def
      exponent_def fraction_def)

lemma exponent_finite: "\<not> is_nan w \<Longrightarrow> \<not> is_inf w \<Longrightarrow> exponent w < 255"
  using exponent_le [of w] by (auto simp add: is_nan_def is_inf_def)

lemma zero_of_magnitude:
  assumes "magnitude w = 0"
  shows "w = with_sign (sign_bit w) 0"
proof -
  have "exponent w * 2 ^ 23 + fraction w = 0"
    using assms by (simp add: magnitude_zero_iff)
  then show ?thesis
    using word_of_fields [of w] by simp
qed

lemma fp_val_sign:
  assumes "magnitude w \<noteq> 0"
  shows "fp_val w \<noteq> 0" and "fp_val w < 0 \<longleftrightarrow> sign_bit w" and "nat \<bar>fp_val w\<bar> = magnitude w"
  using assms by (simp_all add: fp_val_def)

lemma add_zero_left:
  assumes "\<not> is_nan b" and "b \<noteq> 0x80000000"
  shows "add_non_nan rc 0 b = b"
proof (cases "is_inf b")
  case True
  then show ?thesis by (simp add: add_non_nan_def zero_facts)
next
  case False
  then have fin: "exponent b < 255"
    using assms(1) by (simp add: exponent_finite)
  show ?thesis
  proof (cases "magnitude b = 0")
    case True
    then have b: "b = with_sign (sign_bit b) 0" by (rule zero_of_magnitude)
    have "\<not> sign_bit b"
    proof
      assume "sign_bit b"
      with b have "b = 0x80000000" by (simp add: with_sign_def)
      with assms(2) show False by simp
    qed
    moreover from this b have "b = 0" by (simp add: with_sign_def)
    moreover have "fp_val b = 0" using True by (simp add: fp_val_def)
    ultimately show ?thesis
      using False by (simp add: add_non_nan_def zero_facts with_sign_def)
  next
    case nz: False
    have "add_non_nan rc 0 b = round_to_f32 rc (sign_bit b) (magnitude b)"
      using False fp_val_sign [OF nz] by (simp add: add_non_nan_def zero_facts)
    then show ?thesis
      using fin nz by (simp add: round_to_f32_exact)
  qed
qed

lemma add_zero_right:
  assumes "\<not> is_nan a" and "a \<noteq> 0x80000000"
  shows "add_non_nan rc a 0 = a"
proof (cases "is_inf a")
  case True
  then show ?thesis by (simp add: add_non_nan_def zero_facts)
next
  case False
  then have fin: "exponent a < 255"
    using assms(1) by (simp add: exponent_finite)
  show ?thesis
  proof (cases "magnitude a = 0")
    case True
    then have a: "a = with_sign (sign_bit a) 0" by (rule zero_of_magnitude)
    have "\<not> sign_bit a"
    proof
      assume "sign_bit a"
      with a have "a = 0x80000000" by (simp add: with_sign_def)
      with assms(2) show False by simp
    qed
    moreover from this a have "a = 0" by (simp add: with_sign_def)
    moreover have "fp_val a = 0" using True by (simp add: fp_val_def)
    ultimately show ?thesis
      using False by (simp add: add_non_nan_def zero_facts with_sign_def)
  next
    case nz: False
    have "add_non_nan rc a 0 = round_to_f32 rc (sign_bit a) (magnitude a)"
      using False fp_val_sign [OF nz] by (simp add: add_non_nan_def zero_facts)
    then show ?thesis
      using fin nz by (simp add: round_to_f32_exact)
  qed
qed

lemma fp_sub_zero:
  assumes "\<not> is_nan w" and "w \<noteq> 0"
  shows "fp_sub rc 0 w = scalar_neg w"
proof -
  have "w XOR 0x80000000 \<noteq> 0x80000000"
  proof
    assume "w XOR 0x80000000 = 0x80000000"
    then have "(w XOR 0x80000000) XOR 0x80000000 = 0" by simp
    then have "w = 0" by (simp only: flip_flip)
    with assms(2) show False by simp
  qed
  moreover have "\<not> is_nan (w XOR 0x80000000)"
    using assms(1) by (simp add: is_nan_flip)
  ultimately have "add_non_nan rc 0 (w XOR 0x80000000) = w XOR 0x80000000"
    by (rule add_zero_left [rotated])
  then show ?thesis
    using assms(1) by (simp add: fp_sub_def scalar_neg_def zero_facts)
qed

lemma fp_sub_zero_zero: "fp_sub rc 0 0 = (if rc = Round_Down then 0x80000000 else 0)"
  by (cases rc)
    (simp_all add: fp_sub_def add_non_nan_def is_nan_def is_inf_def exponent_def fraction_def
      fp_val_def magnitude_def sign_bit_def with_sign_def Let_def)

lemma one_facts: "\<not> is_nan 0x3F800000" "0x3F800000 \<noteq> (0x80000000 :: 32 word)"
  by (simp_all add: is_nan_def exponent_def fraction_def)

lemma fp_add_zero_one: "fp_add rc 0 0x3F800000 = 0x3F800000"
  by (simp add: fp_add_def zero_facts one_facts add_zero_left)

lemma fp_add_one_zero: "fp_add rc 0x3F800000 0 = 0x3F800000"
  by (simp add: fp_add_def zero_facts one_facts add_zero_right)

lemma fp_add_zero_zero: "fp_add rc 0 0 = 0"
  by (simp add: fp_add_def zero_facts add_zero_left)

subsection \<open>Evaluation of the intrinsics\<close>

lemma upt_16: "[0..<16] = [0, 1, 2, 3, 4, 5, 6, 7, 8, 9, 10, 11, 12, 13, 14, 15]"
  by code_simp

lemma read16_of_nat: "read16 (\<lambda>a. of_nat a) 4 = [4, 8, 12, 16, 20, 24, 28, 32, 36, 40, 44, 48, 52, 56, 60, 64]"
  by (simp add: read16_def upt_16)

lemma read16_write16: "length v = 16 \<Longrightarrow> read16 (write16 mem p v) p = v"
  by (rule nth_equalityI) (simp_all add: read16_def write16_def)

lemma cvt_one_and_a_half: "cvt_f32_i32 Round_Nearest 0x3FC00000 = 2"
  by (simp add: cvt_f32_i32_def is_nan_def is_inf_def exponent_def fraction_def
      round_to_int_def fp_val_def magnitude_def sign_bit_def Let_def)

lemma cvtps_one_and_a_half:
  "mm512_cvtps_epi32 Round_Nearest (replicate 16 0x3FC00000) = replicate 16 2"
  by (rule nth_equalityI) (simp_all add: mm512_cvtps_epi32_def cvt_one_and_a_half)

lemma haddp_lane_0:
  "haddp rc row ! 0 =
     (let s = fp_add rc
                (fp_add rc (fp_add rc (row ! 0 ! 0) (row ! 0 ! 8))
                           (fp_add rc (row ! 0 ! 4) (row ! 0 ! 12)))
                (fp_add rc (fp_add rc (row ! 0 ! 3) (row ! 0 ! 11))
                           (fp_add rc (row ! 0 ! 7) (row ! 0 ! 15)))
      in fp_add rc s s)"
  by (simp add: haddp_def HADDP_STEP2_def HADDP_STEP1_def Let_def mm512_insertf32x8_def
      mm512_castps256_ps512_def mm256_hadd_ps_def mm512_extractf32x8_ps_def
      mm512_shuffle_ps_def mm512_shuffle_f32x4_def batch_add_def mm512_add_ps_def MM_SHUFFLE_def)


subsection \<open>The constructor with the unaligned tag\<close>

text \<open>C1 (the code departs from the claim): at the pointer 4, which is aligned for a
  \<^verbatim>\<open>float\<close> but not to 64 bytes, the constructor \<open>batch(src, unaligned_mode)\<close> raises
  a general-protection fault, since it calls the aligned load, while \<open>batch(src)\<close> and
  \<open>load_unaligned(src)\<close> read the sixteen values at \<open>src\<close>.\<close>

theorem unaligned_mode_constructor_faults:
  "batch_unaligned_mode (\<lambda>a. of_nat a) 4 = Inl General_Protection
   \<and> batch_src (\<lambda>a. of_nat a) 4
       = Inr [4, 8, 12, 16, 20, 24, 28, 32, 36, 40, 44, 48, 52, 56, 60, 64]
   \<and> load_unaligned_float (\<lambda>a. of_nat a) 4
       = Inr [4, 8, 12, 16, 20, 24, 28, 32, 36, 40, 44, 48, 52, 56, 60, 64]"
  by (simp add: batch_unaligned_mode_def batch_src_def load_unaligned_float_def
      mm512_load_ps_def mm512_loadu_ps_def read16_of_nat)

subsection \<open>Storing to 32-bit integers\<close>

text \<open>C2 (the code departs from the claim): for the batch whose lanes are all \<open>1.5\<close>
  (\<open>0x3FC00000\<close>), under the default rounding control, \<open>store_aligned(int32_t*)\<close> and
  \<open>store_unaligned(int32_t*)\<close> write 2 to every element of the destination, whereas
  truncation toward zero of \<open>1.5\<close> is 1.\<close>

theorem store_int32_rounds_to_nearest:
  "map_sum id (\<lambda>m. read16 m 0)
      (store_aligned_int32 Round_Nearest (replicate 16 0x3FC00000) (\<lambda>a. 0) 0)
     = Inr (replicate 16 2)
   \<and> map_sum id (\<lambda>m. read16 m 4)
      (store_unaligned_int32 Round_Nearest (replicate 16 0x3FC00000) (\<lambda>a. 0) 4)
     = Inr (replicate 16 2)
   \<and> truncate_toward_zero 0x3FC00000 = Some 1"
  by (simp add: store_aligned_int32_def store_unaligned_int32_def mm512_store_si512_def
      mm512_storeu_si512_def cvtps_one_and_a_half read16_write16)
    (simp add: truncate_toward_zero_def is_nan_def is_inf_def exponent_def fraction_def
      fp_val_def magnitude_def sign_bit_def Let_def)

subsection \<open>Unary negation\<close>

text \<open>C3, as stated, fails: in the batch whose lane 0 is \<open>+0.0\<close> and whose lane 1 is the
  quiet NaN \<open>0x7FC00000\<close>, neither lane of \<open>-x\<close> has the bits of the scalar negation
  (\<open>0 - (+0.0)\<close> is \<open>+0.0\<close> when rounding to nearest, and \<open>0 - NaN\<close> keeps the sign of
  the NaN).\<close>

theorem batch_neg_counterexample:
  "batch_neg Round_Nearest [0, 0x7FC00000, 0, 0, 0, 0, 0, 0, 0, 0, 0, 0, 0, 0, 0, 0] ! 0
     \<noteq> scalar_neg ([0, 0x7FC00000, 0, 0, 0, 0, 0, 0, 0, 0, 0, 0, 0, 0, 0, 0] ! 0)
   \<and> batch_neg Round_Nearest [0, 0x7FC00000, 0, 0, 0, 0, 0, 0, 0, 0, 0, 0, 0, 0, 0, 0] ! 1
     \<noteq> scalar_neg ([0, 0x7FC00000, 0, 0, 0, 0, 0, 0, 0, 0, 0, 0, 0, 0, 0, 0] ! 1)"
proof -
  have "fp_sub Round_Nearest 0 0 = 0"
    by (simp add: fp_sub_zero_zero)
  moreover have "fp_sub Round_Nearest 0 0x7FC00000 = 0x7FC00000"
    by (simp add: fp_sub_def zero_facts is_nan_qnan quiet_def)
  ultimately show ?thesis
    by (simp add: batch_neg_def mm512_sub_ps_def mm512_setzero_ps_def scalar_neg_def)
qed

text \<open>C3, amended: for every batch \<open>x\<close>, every rounding control and every lane \<open>i\<close> below
  16 that is not a NaN, lane \<open>i\<close> of \<open>-x\<close> is bit-identical to the scalar negation of
  lane \<open>i\<close> of \<open>x\<close> (also for \<open>-0.0\<close>, infinities and denormals), except that a \<open>+0.0\<close>
  lane gives \<open>+0.0\<close> unless the rounding control is round-down.\<close>

theorem batch_neg_lane:
  assumes "length x = 16" and "i < 16" and "\<not> is_nan (x ! i)"
  shows "batch_neg rc x ! i =
           (if x ! i = 0 \<and> rc \<noteq> Round_Down then 0 else scalar_neg (x ! i))"
proof -
  have lane: "batch_neg rc x ! i = fp_sub rc 0 (x ! i)"
    using assms(2) by (simp add: batch_neg_def mm512_sub_ps_def mm512_setzero_ps_def)
  show ?thesis
  proof (cases "x ! i = 0")
    case True
    then show ?thesis
      using lane by (simp add: fp_sub_zero_zero scalar_neg_def)
  next
    case False
    then show ?thesis
      using lane assms(3) by (simp add: fp_sub_zero)
  qed
qed

theorem batch_neg_lane_witness:
  "length (replicate 16 (0x3FC00000 :: f32)) = 16 \<and> (5 :: nat) < 16
   \<and> \<not> is_nan (replicate 16 (0x3FC00000 :: f32) ! 5)
   \<and> batch_neg Round_Nearest (replicate 16 0x3FC00000) ! 5 = 0xBFC00000"
  using batch_neg_lane [of "replicate 16 0x3FC00000" 5 Round_Nearest]
  by (simp add: is_nan_def exponent_def fraction_def scalar_neg_def)

subsection \<open>Inequality\<close>

text \<open>C4 (the code departs from the claim): with a NaN in lane 0 of \<open>a\<close> and \<open>1.0\<close> in
  lane 0 of \<open>b\<close>, lane 0 of \<open>a != b\<close> is false, since the comparison predicate is the
  ordered \<^verbatim>\<open>_CMP_NEQ_OQ\<close>, while the scalar \<open>!=\<close> on these two values is true.\<close>

theorem batch_neq_false_on_nan:
  "\<not> batch_bool_index (batch_neq (replicate 16 0x7FC00000) (replicate 16 0x3F800000)) 0
   \<and> scalar_neq 0x7FC00000 0x3F800000"
  by (simp add: batch_bool_index_def batch_neq_def mm512_cmp_ps_mask_def bit_mask_of_bools
      cmp_holds_NEQ_OQ fp_compare_def scalar_neq_def is_nan_qnan)

subsection \<open>Partial horizontal sum\<close>

text \<open>C5 (the code departs from the claim): when \<open>row[0]\<close> is \<open>1.0\<close> in lane 1 and zero
  elsewhere and every other row is zero, lane 0 of \<open>haddp(row)\<close> is \<open>0.0\<close>, whereas the
  sum of the sixteen lanes of \<open>row[0]\<close> is \<open>1.0\<close>: the two \<^verbatim>\<open>_mm512_shuffle_ps\<close> of
  the second step pick elements 0 and 3 of each block twice and drop elements 1 and 2.\<close>

theorem haddp_drops_lanes:
  "haddp Round_Nearest
     ([0, 0x3F800000, 0, 0, 0, 0, 0, 0, 0, 0, 0, 0, 0, 0, 0, 0]
        # replicate 15 (replicate 16 0)) ! 0 = 0
   \<and> lane_sum Round_Nearest [0, 0x3F800000, 0, 0, 0, 0, 0, 0, 0, 0, 0, 0, 0, 0, 0, 0]
       = 0x3F800000"
  by (simp add: haddp_lane_0 lane_sum_def fp_add_zero_zero fp_add_zero_one fp_add_one_zero)

subsection \<open>Selection\<close>

text \<open>C6: for every mask \<open>cond\<close>, all batches \<open>a\<close> and \<open>b\<close> and every lane \<open>i\<close> below 16,
  lane \<open>i\<close> of \<open>select cond a b\<close> is lane \<open>i\<close> of \<open>a\<close> when lane \<open>i\<close> of \<open>cond\<close> is true and
  lane \<open>i\<close> of \<open>b\<close> when it is false.\<close>

theorem select_lane:
  assumes "length a = 16" and "length b = 16" and "i < 16"
  shows "select cond a b ! i = (if batch_bool_index cond i then a ! i else b ! i)"
  using assms by (simp add: select_def mm512_mask_blend_ps_def batch_bool_index_def)

theorem select_lane_witness:
  "length [1, 2, 3, 4, 5, 6, 7, 8, 9, 10, 11, 12, 13, 14, 15, 16 :: f32] = 16
   \<and> length (replicate 16 (9 :: f32)) = 16 \<and> (2 :: nat) < 16
   \<and> batch_bool_index 5 2
   \<and> select 5 [1, 2, 3, 4, 5, 6, 7, 8, 9, 10, 11, 12, 13, 14, 15, 16] (replicate 16 9) ! 2 = 3"
  using select_lane [of "[1, 2, 3, 4, 5, 6, 7, 8, 9, 10, 11, 12, 13, 14, 15, 16]"
      "replicate 16 9" 2 5]
  by (simp add: batch_bool_index_def)

subsection \<open>NaN test\<close>

text \<open>C7: for every batch \<open>x\<close> and every lane \<open>i\<close> below 16, lane \<open>i\<close> of \<open>isnan x\<close> is true
  if and only if lane \<open>i\<close> of \<open>x\<close> is a NaN, whatever the other lanes hold.\<close>

theorem isnan_lane:
  assumes "length x = 16" and "i < 16"
  shows "batch_bool_index (isnan x) i \<longleftrightarrow> is_nan (x ! i)"
  using assms
  by (simp add: batch_bool_index_def isnan_def mm512_cmp_ps_mask_def bit_mask_of_bools
      cmp_holds_UNORD_Q fp_compare_def)

theorem isnan_lane_witness:
  "length ((replicate 16 0x3F800000) [3 := 0x7FC00000 :: f32]) = 16 \<and> (3 :: nat) < 16
   \<and> batch_bool_index (isnan ((replicate 16 0x3F800000) [3 := 0x7FC00000])) 3"
  using isnan_lane [of "(replicate 16 0x3F800000) [3 := 0x7FC00000]" 3]
  by (simp add: is_nan_qnan)

subsection \<open>Lane extraction\<close>

text \<open>C8: for every batch \<open>b\<close> and every index \<open>k\<close> of type \<^verbatim>\<open>size_t\<close>, also \<open>k \<ge> 16\<close>,
  \<open>b[k]\<close> returns the scalar of lane \<open>k mod 16\<close>; no index makes it fail.\<close>

theorem batch_index_wraps:
  assumes "length b = 16"
  shows "batch_index b k = Inr (b ! (unat k mod 16))"
  by (simp add: batch_index_def store_aligned_float_def mm512_store_ps_def unat_and_15
      write16_def)

theorem batch_index_wraps_witness:
  "length [1, 2, 3, 4, 5, 6, 7, 8, 9, 10, 11, 12, 13, 14, 15, 16 :: f32] = 16
   \<and> batch_index [1, 2, 3, 4, 5, 6, 7, 8, 9, 10, 11, 12, 13, 14, 15, 16] 18 = Inr 3"
  using batch_index_wraps [of "[1, 2, 3, 4, 5, 6, 7, 8, 9, 10, 11, 12, 13, 14, 15, 16]" 18]
  by simp

subsection \<open>Ordered less-than\<close>

text \<open>C9: for all batches \<open>a\<close> and \<open>b\<close> and every lane \<open>i\<close> below 16, lane \<open>i\<close> of \<open>a < b\<close>
  is the ordered less-than of the two lanes: false when either lane is a NaN, and
  otherwise the comparison of the two values, which is what the scalar \<open><\<close> gives.\<close>

theorem batch_lt_lane:
  assumes "length a = 16" and "length b = 16" and "i < 16"
  shows "(batch_bool_index (batch_lt a b) i \<longleftrightarrow>
           \<not> is_nan (a ! i) \<and> \<not> is_nan (b ! i) \<and> fp_val (a ! i) < fp_val (b ! i))
         \<and> batch_bool_index (batch_lt a b) i = scalar_lt (a ! i) (b ! i)"
  using assms
  by (simp add: batch_bool_index_def batch_lt_def mm512_cmp_ps_mask_def bit_mask_of_bools
      cmp_holds_LT_OQ fp_compare_def scalar_lt_def)

theorem batch_lt_lane_witness:
  "length (replicate 16 (0x7FC00000 :: f32)) = 16 \<and> length (replicate 16 (0 :: f32)) = 16
   \<and> (0 :: nat) < 16
   \<and> \<not> batch_bool_index (batch_lt (replicate 16 0x7FC00000) (replicate 16 0)) 0"
  using batch_lt_lane [of "replicate 16 0x7FC00000" "replicate 16 0" 0]
  by (simp add: is_nan_qnan)

subsection \<open>And-not\<close>

text \<open>C10: for all batches \<open>lhs\<close> and \<open>rhs\<close> and every lane \<open>i\<close> below 16, lane \<open>i\<close> of
  \<open>bitwise_andnot lhs rhs\<close> has the bit pattern \<open>(NOT lhs[i]) AND rhs[i]\<close>: the first
  operand is the complemented one.\<close>

theorem bitwise_andnot_lane:
  assumes "length lhs = 16" and "length rhs = 16" and "i < 16"
  shows "bitwise_andnot lhs rhs ! i = (NOT (lhs ! i)) AND (rhs ! i)"
  using assms by (simp add: bitwise_andnot_def mm512_andnot_ps_def)

theorem bitwise_andnot_lane_witness:
  "length (replicate 16 (0x0F :: f32)) = 16 \<and> length (replicate 16 (0xFF :: f32)) = 16
   \<and> (7 :: nat) < 16
   \<and> bitwise_andnot (replicate 16 0x0F) (replicate 16 0xFF) ! 7 = 0xF0"
  using bitwise_andnot_lane [of "replicate 16 0x0F" "replicate 16 0xFF" 7]
  by simp

end
